theory Spec2Isabelle
  imports Main
begin

section \<open>The Account REST service: route handlers of service/routes.py\<close>

text \<open>
  The handlers of \<^verbatim>\<open>service/routes.py\<close> are embedded as functions that take the
  request and the store and return the handler's outcome together with the store after
  the call. An exception raised by a handler (\<^verbatim>\<open>abort\<close>, a validation error of the
  model) is the \<open>Inl\<close> branch of the outcome. Logging is not modelled.
\<close>

subsection \<open>JSON values, requests, responses, exceptions\<close>

text \<open>
  What \<^verbatim>\<open>request.get_json()\<close> returns and what \<^verbatim>\<open>jsonify\<close> takes: a Python
  value built from None, booleans, integers, strings, lists and dictionaries (an
  association list of keys and values, a key looked up with \<open>map_of\<close>).
\<close>

datatype json =
    JNull
  | JBool bool
  | JNum int
  | JStr string
  | JArr "json list"
  | JObj "(string \<times> json) list"

text \<open>
  The exceptions that leave a handler: \<^verbatim>\<open>abort(code, description)\<close> raises an HTTP
  exception with that status code; \<^verbatim>\<open>Account.deserialize\<close> raises
  \<^verbatim>\<open>DataValidationError\<close>.
\<close>

datatype exn =
    HTTPException nat "string option"
  | DataValidationError

text \<open>
  The part of the Flask request the handlers read: the Content-Type header
  (\<^verbatim>\<open>request.headers.get("Content-Type")\<close>, None when the header is missing) and the
  outcome of \<^verbatim>\<open>request.get_json()\<close>, which the framework computes: the parsed body,
  or the exception it raises.
\<close>

record request =
  content_type :: "string option"
  get_json :: "exn + json"

text \<open>The body of a response: a \<^verbatim>\<open>jsonify\<close>-ed value or a plain string.\<close>

datatype body = Json json | Text string

record response =
  status :: nat
  body :: body
  headers :: "(string \<times> string) list"

text \<open>The constants of \<^verbatim>\<open>service.common.status\<close> that the handlers use.\<close>

definition HTTP_200_OK :: nat where
  "HTTP_200_OK = 200"

definition HTTP_201_CREATED :: nat where
  "HTTP_201_CREATED = 201"

definition HTTP_204_NO_CONTENT :: nat where
  "HTTP_204_NO_CONTENT = 204"

definition HTTP_400_BAD_REQUEST :: nat where
  "HTTP_400_BAD_REQUEST = 400"

definition HTTP_404_NOT_FOUND :: nat where
  "HTTP_404_NOT_FOUND = 404"

definition HTTP_415_UNSUPPORTED_MEDIA_TYPE :: nat where
  "HTTP_415_UNSUPPORTED_MEDIA_TYPE = 415"

text \<open>\<^verbatim>\<open>abort(code, description)\<close> always raises.\<close>

definition abort :: "nat \<Rightarrow> string option \<Rightarrow> exn + 'a" where
  "abort code description = Inl (HTTPException code description)"

text \<open>
  \<^verbatim>\<open>make_response(jsonify(value), status, headers)\<close>.
\<close>

definition make_response :: "json \<Rightarrow> nat \<Rightarrow> (string \<times> string) list \<Rightarrow> response" where
  "make_response value code hs = \<lparr>status = code, body = Json value, headers = hs\<rparr>"

text \<open>
  Modelled from the spec: the error handlers of \<^verbatim>\<open>service/common\<close> are not among
  the sources. The spec's error taxonomy maps a validation error to status 400; an HTTP
  exception carries its own status code.
\<close>

fun status_code_of :: "exn \<Rightarrow> nat" where
  "status_code_of (HTTPException code description) = code"
| "status_code_of DataValidationError = HTTP_400_BAD_REQUEST"

subsection \<open>The content-type check\<close>

text \<open>
  \<^verbatim>\<open>check_content_type(media_type)\<close>: returns when the header is truthy (neither None
  nor the empty string) and equal to the media type, and aborts with 415 otherwise.
\<close>

definition truthy :: "string option \<Rightarrow> bool" where
  "truthy v = (case v of None \<Rightarrow> False | Some t \<Rightarrow> t \<noteq> [])"

definition check_content_type :: "request \<Rightarrow> string \<Rightarrow> exn + unit" where
  "check_content_type req media_type =
     (if truthy (content_type req) \<and> content_type req = Some media_type
      then Inr ()
      else abort HTTP_415_UNSUPPORTED_MEDIA_TYPE
             (Some (''Content-Type must be '' @ media_type)))"

subsection \<open>The Account model and its store\<close>

text \<open>
  Modelled from the spec: \<^verbatim>\<open>service/models.py\<close> (the class \<^verbatim>\<open>Account\<close> and its
  database session) is not among the sources. The spec gives an account an identifier,
  a name, an email, an address, an optional phone number and a join date; a date is
  kept as its ISO text. A Python attribute that is not set yet is None.
\<close>

type_synonym date = string

record account =
  account_id :: "nat option"
  name :: "string option"
  email :: "string option"
  address :: "string option"
  phone_number :: "string option"
  date_joined :: "date option"

text \<open>
  Modelled from the spec: the backing table of \<^verbatim>\<open>service/models.py\<close>, which is not
  among the sources. The rows are kept in insertion order; \<open>next_id\<close> is the
  identifier the store assigns next and \<open>today\<close> the date it assigns as join date.
\<close>

record store =
  table :: "account list"
  next_id :: nat
  today :: date

definition empty_store :: "date \<Rightarrow> store" where
  "empty_store d = \<lparr>table = [], next_id = 1, today = d\<rparr>"

text \<open>
  Modelled from the spec: the constructor \<^verbatim>\<open>Account()\<close> of the missing
  \<^verbatim>\<open>service/models.py\<close>; no attribute is set.
\<close>

definition Account :: account where
  "Account = \<lparr>account_id = None, name = None, email = None, address = None,
               phone_number = None, date_joined = None\<rparr>"

text \<open>
  Modelled from the spec: reading a field of the body in the missing
  \<^verbatim>\<open>Account.deserialize\<close>. A required field must be present and a string; the
  optional one may be missing or null.
\<close>

definition required_field :: "(string \<times> json) list \<Rightarrow> string \<Rightarrow> exn + string" where
  "required_field kv k =
     (case map_of kv k of
        Some (JStr v) \<Rightarrow> Inr v
      | _ \<Rightarrow> Inl DataValidationError)"

definition optional_field :: "(string \<times> json) list \<Rightarrow> string \<Rightarrow> exn + string option" where
  "optional_field kv k =
     (case map_of kv k of
        None \<Rightarrow> Inr None
      | Some JNull \<Rightarrow> Inr None
      | Some (JStr v) \<Rightarrow> Inr (Some v)
      | Some _ \<Rightarrow> Inl DataValidationError)"

text \<open>
  Modelled from the spec: \<^verbatim>\<open>Account.deserialize(data)\<close> of the missing
  \<^verbatim>\<open>service/models.py\<close>. It overwrites the mutable fields (name, email, address,
  phone number) from the body and fails with a validation error if a required field is
  missing or malformed; the identifier and the join date are not touched.
\<close>

definition Account_deserialize :: "account \<Rightarrow> json \<Rightarrow> exn + account" where
  "Account_deserialize a data =
     (case data of
        JObj kv \<Rightarrow>
          (case required_field kv ''name'' of
             Inl e \<Rightarrow> Inl e
           | Inr n \<Rightarrow>
          (case required_field kv ''email'' of
             Inl e \<Rightarrow> Inl e
           | Inr m \<Rightarrow>
          (case required_field kv ''address'' of
             Inl e \<Rightarrow> Inl e
           | Inr d \<Rightarrow>
          (case optional_field kv ''phone_number'' of
             Inl e \<Rightarrow> Inl e
           | Inr p \<Rightarrow>
               Inr (a\<lparr>name := Some n, email := Some m, address := Some d,
                       phone_number := p\<rparr>)))))
      | _ \<Rightarrow> Inl DataValidationError)"

text \<open>
  Modelled from the spec: \<^verbatim>\<open>Account.serialize()\<close> of the missing
  \<^verbatim>\<open>service/models.py\<close>, the dictionary of the six attributes (the keys are those the
  tests read from a response).
\<close>

definition json_of_string :: "string option \<Rightarrow> json" where
  "json_of_string v = (case v of None \<Rightarrow> JNull | Some t \<Rightarrow> JStr t)"

definition json_of_nat :: "nat option \<Rightarrow> json" where
  "json_of_nat v = (case v of None \<Rightarrow> JNull | Some n \<Rightarrow> JNum (int n))"

definition Account_serialize :: "account \<Rightarrow> json" where
  "Account_serialize a =
     JObj [(''id'', json_of_nat (account_id a)),
           (''name'', json_of_string (name a)),
           (''email'', json_of_string (email a)),
           (''address'', json_of_string (address a)),
           (''phone_number'', json_of_string (phone_number a)),
           (''date_joined'', json_of_string (date_joined a))]"

text \<open>
  Modelled from the spec: the store operations of the missing \<^verbatim>\<open>service/models.py\<close>:
  create (assign identifier and join date, persist), find by identifier (a single entity
  or absence), list all (the full sequence, in insertion order), delete (remove if
  present). An entity that find returns is a copy of the row: changing it does not change
  the table.
\<close>

definition Account_create :: "account \<Rightarrow> store \<Rightarrow> account \<times> store" where
  "Account_create a s =
     (let a' = a\<lparr>account_id := Some (next_id s), date_joined := Some (today s)\<rparr>
      in (a', s\<lparr>table := table s @ [a'], next_id := Suc (next_id s)\<rparr>))"

definition Account_find :: "nat \<Rightarrow> store \<Rightarrow> account option" where
  "Account_find i s = find (\<lambda>a. account_id a = Some i) (table s)"

definition Account_all :: "store \<Rightarrow> account list" where
  "Account_all s = table s"

definition Account_delete :: "account \<Rightarrow> store \<Rightarrow> store" where
  "Account_delete a s = s\<lparr>table := filter (\<lambda>r. account_id r \<noteq> account_id a) (table s)\<rparr>"

text \<open>
  The invariant of the store: every row has an identifier, below the next one to be
  assigned, and no two rows share one.
\<close>

definition wf_store :: "store \<Rightarrow> bool" where
  "wf_store s =
     (list_all (\<lambda>a. case account_id a of None \<Rightarrow> False | Some k \<Rightarrow> k < next_id s) (table s)
      \<and> distinct (map account_id (table s)))"

subsection \<open>The route handlers\<close>

text \<open>
  \<^verbatim>\<open>create_accounts\<close> (POST /accounts): the content-type check, then the body is
  parsed into a new account, which the store creates; the response is 201 with the
  serialized account and the Location header.
\<close>

definition create_accounts :: "request \<Rightarrow> store \<Rightarrow> (exn + response) \<times> store" where
  "create_accounts req s =
     (case check_content_type req ''application/json'' of
        Inl e \<Rightarrow> (Inl e, s)
      | Inr _ \<Rightarrow>
     (case get_json req of
        Inl e \<Rightarrow> (Inl e, s)
      | Inr data \<Rightarrow>
     (case Account_deserialize Account data of
        Inl e \<Rightarrow> (Inl e, s)
      | Inr account \<Rightarrow>
     (case Account_create account s of
        (account', s') \<Rightarrow>
          (Inr (make_response (Account_serialize account') HTTP_201_CREATED
                  [(''Location'', ''/'')]), s')))))"

text \<open>\<^verbatim>\<open>list_accounts\<close> (GET /accounts).\<close>

definition list_accounts :: "store \<Rightarrow> (exn + response) \<times> store" where
  "list_accounts s =
     (let accounts = Account_all s in
      if length accounts = 0 then (Inr (make_response (JArr []) HTTP_200_OK []), s)
      else
        (let serialized_accounts = map Account_serialize accounts
         in (Inr (make_response (JArr serialized_accounts) HTTP_200_OK []), s)))"

text \<open>
  \<^verbatim>\<open>read_account\<close> (GET /accounts/<id>). The identifier of the path is taken as a
  value of the identifier type.
\<close>

definition read_account :: "nat \<Rightarrow> store \<Rightarrow> (exn + response) \<times> store" where
  "read_account i s =
     (case Account_find i s of
        Some account \<Rightarrow> (Inr (make_response (Account_serialize account) HTTP_200_OK []), s)
      | None \<Rightarrow> (abort HTTP_404_NOT_FOUND None, s))"

text \<open>
  \<^verbatim>\<open>update_account\<close> (PUT /accounts/<account_id>): the account that find returned is
  deserialized from the body and serialized into the response; the handler calls no store
  operation after \<^verbatim>\<open>Account.find\<close>.
\<close>

definition update_account :: "request \<Rightarrow> nat \<Rightarrow> store \<Rightarrow> (exn + response) \<times> store" where
  "update_account req i s =
     (case Account_find i s of
        Some account \<Rightarrow>
          (case get_json req of
             Inl e \<Rightarrow> (Inl e, s)
           | Inr data \<Rightarrow>
          (case Account_deserialize account data of
             Inl e \<Rightarrow> (Inl e, s)
           | Inr account' \<Rightarrow>
               (Inr (make_response (Account_serialize account') HTTP_200_OK []), s)))
      | None \<Rightarrow> (abort HTTP_404_NOT_FOUND None, s))"

text \<open>
  \<^verbatim>\<open>delete_account\<close> (DELETE /accounts/<account_id>): the \<^verbatim>\<open>return\<close> is inside
  the \<^verbatim>\<open>if\<close>, so the function returns the pair of the empty string and 204 when the
  account was found, and falls off its end (Python's None) when it was not.
\<close>

definition delete_account :: "nat \<Rightarrow> store \<Rightarrow> response option \<times> store" where
  "delete_account i s =
     (case Account_find i s of
        Some account \<Rightarrow>
          (Some \<lparr>status = HTTP_204_NO_CONTENT, body = Text '''', headers = []\<rparr>,
           Account_delete account s)
      | None \<Rightarrow> (None, s))"

subsection \<open>Sequences of requests and example data\<close>

text \<open>
  A request that \<^verbatim>\<open>create_accounts\<close> accepts: the content type is the expected one,
  \<^verbatim>\<open>request.get_json()\<close> returns, and the body deserializes into a new account.
\<close>

definition valid_request :: "request \<Rightarrow> bool" where
  "valid_request req =
     (content_type req = Some ''application/json'' \<and>
      (case get_json req of
         Inl e \<Rightarrow> False
       | Inr data \<Rightarrow>
           (case Account_deserialize Account data of Inl e \<Rightarrow> False | Inr a \<Rightarrow> True)))"

text \<open>The store after a sequence of POST requests, each handled by \<^verbatim>\<open>create_accounts\<close>.\<close>

fun create_all :: "request list \<Rightarrow> store \<Rightarrow> store" where
  "create_all [] s = s"
| "create_all (req # reqs) s = create_all reqs (snd (create_accounts req s))"

text \<open>The payload of the spec's scenario, a second payload, and one that lacks fields.\<close>

definition sam_payload :: json where
  "sam_payload =
     JObj [(''name'', JStr ''Sam''), (''email'', JStr ''sam@x.com''),
           (''address'', JStr ''1 Rd''), (''phone_number'', JStr ''555-0100'')]"

definition bob_payload :: json where
  "bob_payload =
     JObj [(''name'', JStr ''Bob''), (''email'', JStr ''bob@x.com''),
           (''address'', JStr ''2 Rd''), (''phone_number'', JNull)]"

definition short_payload :: json where
  "short_payload = JObj [(''name'', JStr ''not enough data'')]"

definition json_request :: "json \<Rightarrow> request" where
  "json_request data = \<lparr>content_type = Some ''application/json'', get_json = Inr data\<rparr>"

definition sam :: account where
  "sam = \<lparr>account_id = Some 1, name = Some ''Sam'', email = Some ''sam@x.com'',
           address = Some ''1 Rd'', phone_number = Some ''555-0100'',
           date_joined = Some ''2024-01-01''\<rparr>"

definition sam_store :: store where
  "sam_store = \<lparr>table = [sam], next_id = 2, today = ''2024-01-02''\<rparr>"

section \<open>Properties\<close>

subsection \<open>Auxiliary facts\<close>

lemmas status_defs =
  HTTP_200_OK_def HTTP_201_CREATED_def HTTP_204_NO_CONTENT_def HTTP_400_BAD_REQUEST_def
  HTTP_404_NOT_FOUND_def HTTP_415_UNSUPPORTED_MEDIA_TYPE_def

lemma check_content_type_json:
  "check_content_type req ''application/json'' =
     (if content_type req = Some ''application/json'' then Inr ()
      else Inl (HTTPException 415 (Some ''Content-Type must be application/json'')))"
  by (auto simp: check_content_type_def truthy_def abort_def status_defs)

text \<open>Deserialization: its only error, the fields it leaves alone, the fields it sets.\<close>

lemma required_field_Inr:
  "map_of kv k = Some (JStr v) \<Longrightarrow> required_field kv k = Inr v"
  by (simp add: required_field_def)

lemma required_field_Inl:
  "required_field kv k = Inl e \<Longrightarrow> e = DataValidationError"
  by (auto simp: required_field_def split: option.splits json.splits)

lemma optional_field_Inl:
  "optional_field kv k = Inl e \<Longrightarrow> e = DataValidationError"
  by (auto simp: optional_field_def split: option.splits json.splits)

lemma Account_deserialize_Inl:
  "Account_deserialize a data = Inl e \<Longrightarrow> e = DataValidationError"
  by (auto simp: Account_deserialize_def split: json.splits sum.splits
           dest: required_field_Inl optional_field_Inl)

lemma Account_deserialize_frame:
  "Account_deserialize a data = Inr a' \<Longrightarrow>
     account_id a' = account_id a \<and> date_joined a' = date_joined a"
  by (auto simp: Account_deserialize_def split: json.splits sum.splits)

lemma Account_deserialize_fields:
  assumes "map_of kv ''name'' = Some (JStr n)"
    and "map_of kv ''email'' = Some (JStr m)"
    and "map_of kv ''address'' = Some (JStr d)"
    and "optional_field kv ''phone_number'' = Inr p"
  shows "Account_deserialize a (JObj kv) =
           Inr (a\<lparr>name := Some n, email := Some m, address := Some d, phone_number := p\<rparr>)"
  using assms by (simp add: Account_deserialize_def required_field_Inr)

lemma find_append_fresh:
  "\<forall>x \<in> set xs. \<not> P x \<Longrightarrow> P y \<Longrightarrow> find P (xs @ [y]) = Some y"
  by (induction xs) auto

lemma find_filter_None:
  "find P (filter (\<lambda>x. \<not> P x) xs) = None"
  by (induction xs) auto

lemma Account_find_Some:
  "Account_find i s = Some a \<Longrightarrow> a \<in> set (table s) \<and> account_id a = Some i"
  by (auto simp: Account_find_def find_Some_iff)

lemma Account_find_None:
  "(Account_find i s = None) = (\<not> (\<exists>a \<in> set (table s). account_id a = Some i))"
  by (auto simp: Account_find_def find_None_iff)

lemma Account_find_present:
  "a \<in> set (table s) \<Longrightarrow> account_id a = Some i \<Longrightarrow>
     \<exists>b. Account_find i s = Some b \<and> b \<in> set (table s) \<and> account_id b = Some i"
  by (cases "Account_find i s") (auto simp: Account_find_None dest: Account_find_Some)

lemma wf_store_empty: "wf_store (empty_store d)"
  by (simp add: wf_store_def empty_store_def)

lemma wf_store_fresh:
  "wf_store s \<Longrightarrow> \<forall>a \<in> set (table s). account_id a \<noteq> Some (next_id s)"
  by (auto simp: wf_store_def list_all_iff split: option.splits)

lemma wf_store_create:
  "wf_store s \<Longrightarrow> wf_store (snd (Account_create a s))"
  by (auto simp: wf_store_def Account_create_def Let_def list_all_iff split: option.splits)

lemma wf_store_delete:
  "wf_store s \<Longrightarrow> wf_store (Account_delete a s)"
  by (auto simp: wf_store_def Account_delete_def list_all_iff distinct_map_filter
           split: option.splits)

lemma create_accounts_valid:
  assumes "valid_request req"
  shows "\<exists>a. create_accounts req s =
       (Inr (make_response (Account_serialize (fst (Account_create a s))) 201
               [(''Location'', ''/'')]), snd (Account_create a s))"
proof -
  from assms obtain data a where
    ct: "content_type req = Some ''application/json''" and
    gj: "get_json req = Inr data" and
    ds: "Account_deserialize Account data = Inr a"
    by (auto simp: valid_request_def split: sum.splits)
  have "create_accounts req s =
       (Inr (make_response (Account_serialize (fst (Account_create a s))) 201
               [(''Location'', ''/'')]), snd (Account_create a s))"
    by (simp add: create_accounts_def check_content_type_json ct gj ds status_defs
             split: prod.splits)
  then show ?thesis ..
qed

lemma create_accounts_invalid:
  "\<not> valid_request req \<Longrightarrow> \<exists>e. create_accounts req s = (Inl e, s)"
  by (auto simp: valid_request_def create_accounts_def check_content_type_json
           split: sum.splits prod.splits)

lemma length_table_create:
  "length (table (snd (Account_create a s))) = Suc (length (table s))"
  by (simp add: Account_create_def Let_def)

lemma length_table_create_all:
  "list_all valid_request reqs \<Longrightarrow>
     length (table (create_all reqs s)) = length (table s) + length reqs"
proof (induction reqs arbitrary: s)
  case Nil
  then show ?case by simp
next
  case (Cons req reqs)
  from Cons.prems have v: "valid_request req" and vs: "list_all valid_request reqs"
    by simp_all
  from create_accounts_valid [OF v, of s] obtain a where
    "snd (create_accounts req s) = snd (Account_create a s)"
    by auto
  with Cons.IH [OF vs, of "snd (create_accounts req s)"] show ?case
    by (simp add: length_table_create)
qed

lemma list_accounts_eq:
  "list_accounts s =
     (Inr \<lparr>status = 200, body = Json (JArr (map Account_serialize (table s))), headers = []\<rparr>, s)"
  by (simp add: list_accounts_def Account_all_def make_response_def status_defs Let_def)

lemma update_account_store: "snd (update_account req i s) = s"
  by (simp add: update_account_def abort_def split: option.splits sum.splits)

subsection \<open>Deleting an account\<close>

text \<open>
  C1 (the code differs): for an identifier that is not in the store, \<^verbatim>\<open>delete_account\<close>
  leaves the store as it was, but it does not return the 204 response: the handler falls
  off its end and returns None. Here for the identifier 0, which the store does not hold.
\<close>

theorem delete_account_absent_returns_None:
  "Account_find 0 sam_store = None \<and> delete_account 0 sam_store = (None, sam_store)"
  by (simp add: delete_account_def Account_find_def sam_store_def sam_def)

text \<open>
  C8: for an identifier that is present in the store, \<^verbatim>\<open>delete_account\<close> answers 204
  with an empty body and removes the account: no row of the store after it has the
  identifier, and \<^verbatim>\<open>read_account\<close> on that store aborts with 404.
\<close>

theorem delete_then_read:
  assumes "a \<in> set (table s)" and "account_id a = Some i"
  shows "fst (delete_account i s) =
           Some \<lparr>status = 204, body = Text '''', headers = []\<rparr>
         \<and> \<not> (\<exists>b \<in> set (table (snd (delete_account i s))). account_id b = Some i)
         \<and> read_account i (snd (delete_account i s)) =
             (Inl (HTTPException 404 None), snd (delete_account i s))"
proof -
  from Account_find_present [OF assms] obtain b where
    f: "Account_find i s = Some b" and b: "account_id b = Some i"
    by blast
  have d: "delete_account i s =
      (Some \<lparr>status = 204, body = Text '''', headers = []\<rparr>, Account_delete b s)"
    by (simp add: delete_account_def f status_defs)
  have n: "Account_find i (Account_delete b s) = None"
    by (simp add: Account_find_def Account_delete_def b find_filter_None)
  then have "read_account i (Account_delete b s) =
      (Inl (HTTPException 404 None), Account_delete b s)"
    by (simp add: read_account_def abort_def status_defs)
  with d n show ?thesis
    by (simp add: Account_find_None)
qed

theorem delete_then_read_witness:
  "sam \<in> set (table sam_store) \<and> account_id sam = Some 1
   \<and> delete_account 1 sam_store =
       (Some \<lparr>status = 204, body = Text '''', headers = []\<rparr>, sam_store\<lparr>table := []\<rparr>)
   \<and> read_account 1 (snd (delete_account 1 sam_store)) =
       (Inl (HTTPException 404 None), sam_store\<lparr>table := []\<rparr>)"
proof -
  have h: "sam \<in> set (table sam_store)" "account_id sam = Some 1"
    by (simp_all add: sam_store_def sam_def)
  have d: "delete_account 1 sam_store =
       (Some \<lparr>status = 204, body = Text '''', headers = []\<rparr>, sam_store\<lparr>table := []\<rparr>)"
    by (simp add: delete_account_def Account_find_def Account_delete_def sam_store_def sam_def
          status_defs)
  from delete_then_read [OF h] h d show ?thesis by simp
qed

subsection \<open>Updating an account\<close>

text \<open>
  C2, as stated, fails: a body that lacks a required field makes \<^verbatim>\<open>update_account\<close> raise
  the validation error (400) instead of answering 200; and with a valid body the response
  shows the new fields, but a read after the update still returns the old ones, since the
  handler calls no store operation after \<^verbatim>\<open>Account.find\<close>.
\<close>

theorem update_account_counterexample:
  "Account_find 1 sam_store = Some sam
   \<and> update_account (json_request short_payload) 1 sam_store =
       (Inl DataValidationError, sam_store)
   \<and> status_code_of DataValidationError = 400
   \<and> fst (update_account (json_request bob_payload) 1 sam_store) =
       Inr \<lparr>status = 200,
            body = Json (JObj [(''id'', JNum 1), (''name'', JStr ''Bob''),
                     (''email'', JStr ''bob@x.com''), (''address'', JStr ''2 Rd''),
                     (''phone_number'', JNull), (''date_joined'', JStr ''2024-01-01'')]),
            headers = []\<rparr>
   \<and> read_account 1 (snd (update_account (json_request bob_payload) 1 sam_store)) =
       (Inr \<lparr>status = 200,
             body = Json (JObj [(''id'', JNum 1), (''name'', JStr ''Sam''),
                      (''email'', JStr ''sam@x.com''), (''address'', JStr ''1 Rd''),
                      (''phone_number'', JStr ''555-0100''),
                      (''date_joined'', JStr ''2024-01-01'')]),
             headers = []\<rparr>, sam_store)"
  by (simp add: update_account_def read_account_def Account_find_def sam_store_def sam_def
        json_request_def short_payload_def bob_payload_def Account_deserialize_def
        required_field_def optional_field_def Account_serialize_def json_of_nat_def
        json_of_string_def make_response_def status_defs)

text \<open>
  C2, amended: for every identifier present in the store and every request body that is a
  valid account payload (name, email and address are strings; phone_number is a string,
  null or missing), \<^verbatim>\<open>update_account\<close> overwrites the mutable fields of the account it
  found from the body and returns the serialized updated account with status 200.
\<close>

theorem update_account_valid_body:
  assumes "Account_find i s = Some a"
    and "get_json req = Inr (JObj kv)"
    and "map_of kv ''name'' = Some (JStr n)"
    and "map_of kv ''email'' = Some (JStr m)"
    and "map_of kv ''address'' = Some (JStr d)"
    and "optional_field kv ''phone_number'' = Inr p"
  shows "fst (update_account req i s) =
           Inr \<lparr>status = 200,
                body = Json (Account_serialize
                         (a\<lparr>name := Some n, email := Some m, address := Some d,
                            phone_number := p\<rparr>)),
                headers = []\<rparr>"
  using Account_deserialize_fields [OF assms(3-6), of a]
  by (simp add: update_account_def assms(1,2) make_response_def status_defs)

theorem update_account_valid_body_witness:
  "Account_find 1 sam_store = Some sam
   \<and> fst (update_account (json_request bob_payload) 1 sam_store) =
       Inr \<lparr>status = 200,
            body = Json (JObj [(''id'', JNum 1), (''name'', JStr ''Bob''),
                     (''email'', JStr ''bob@x.com''), (''address'', JStr ''2 Rd''),
                     (''phone_number'', JNull), (''date_joined'', JStr ''2024-01-01'')]),
            headers = []\<rparr>"
proof -
  let ?kv = "[(''name'', JStr ''Bob''), (''email'', JStr ''bob@x.com''),
              (''address'', JStr ''2 Rd''), (''phone_number'', JNull)]"
  have f: "Account_find 1 sam_store = Some sam"
    by (simp add: Account_find_def sam_store_def sam_def)
  have gj: "get_json (json_request bob_payload) = Inr (JObj ?kv)"
    by (simp add: json_request_def bob_payload_def)
  have n: "map_of ?kv ''name'' = Some (JStr ''Bob'')" by simp
  have m: "map_of ?kv ''email'' = Some (JStr ''bob@x.com'')" by simp
  have d: "map_of ?kv ''address'' = Some (JStr ''2 Rd'')" by simp
  have p: "optional_field ?kv ''phone_number'' = Inr None"
    by (simp add: optional_field_def)
  from update_account_valid_body [OF f gj n m d p] f show ?thesis
    by (simp add: sam_def Account_serialize_def json_of_nat_def json_of_string_def)
qed

text \<open>
  C3: after a successful update the identifier and the join date are those from before the
  update, whatever the body contains: both in the account the response shows and in the
  account the store holds under that identifier.
\<close>

theorem update_keeps_id_and_date_joined:
  assumes "Account_find i s = Some a" and "update_account req i s = (Inr resp, s')"
  shows "(\<exists>kv. body resp = Json (JObj kv)
            \<and> map_of kv ''id'' = Some (json_of_nat (account_id a))
            \<and> map_of kv ''date_joined'' = Some (json_of_string (date_joined a)))
         \<and> (\<exists>b. Account_find i s' = Some b
              \<and> account_id b = account_id a \<and> date_joined b = date_joined a)"
proof -
  from assms obtain data a' where
    d: "Account_deserialize a data = Inr a'" and
    r: "resp = make_response (Account_serialize a') HTTP_200_OK []"
    by (auto simp: update_account_def split: sum.splits)
  from Account_deserialize_frame [OF d] have
    fr: "account_id a' = account_id a" "date_joined a' = date_joined a"
    by simp_all
  have "body resp = Json (Account_serialize a')"
    by (simp add: r make_response_def)
  then have 1: "\<exists>kv. body resp = Json (JObj kv)
            \<and> map_of kv ''id'' = Some (json_of_nat (account_id a))
            \<and> map_of kv ''date_joined'' = Some (json_of_string (date_joined a))"
    by (simp add: Account_serialize_def fr)
  from update_account_store [of req i s] assms(2) have "s' = s" by simp
  with assms(1) have 2: "\<exists>b. Account_find i s' = Some b
              \<and> account_id b = account_id a \<and> date_joined b = date_joined a"
    by simp
  from 1 2 show ?thesis ..
qed

theorem update_keeps_id_and_date_joined_witness:
  "Account_find 1 sam_store = Some sam
   \<and> update_account (json_request bob_payload) 1 sam_store =
       (Inr \<lparr>status = 200,
             body = Json (JObj [(''id'', JNum 1), (''name'', JStr ''Bob''),
                      (''email'', JStr ''bob@x.com''), (''address'', JStr ''2 Rd''),
                      (''phone_number'', JNull), (''date_joined'', JStr ''2024-01-01'')]),
             headers = []\<rparr>, sam_store)
   \<and> (\<exists>b. Account_find 1 sam_store = Some b
         \<and> account_id b = account_id sam \<and> date_joined b = date_joined sam)"
proof -
  have f: "Account_find 1 sam_store = Some sam"
    by (simp add: Account_find_def sam_store_def sam_def)
  have u: "update_account (json_request bob_payload) 1 sam_store =
       (Inr \<lparr>status = 200,
             body = Json (JObj [(''id'', JNum 1), (''name'', JStr ''Bob''),
                      (''email'', JStr ''bob@x.com''), (''address'', JStr ''2 Rd''),
                      (''phone_number'', JNull), (''date_joined'', JStr ''2024-01-01'')]),
             headers = []\<rparr>, sam_store)"
    by (simp add: update_account_def Account_find_def sam_store_def json_request_def
          bob_payload_def
          Account_deserialize_def required_field_def optional_field_def
          Account_serialize_def json_of_nat_def json_of_string_def make_response_def
          status_defs sam_def)
  from update_keeps_id_and_date_joined [OF f u] f u show ?thesis by simp
qed

subsection \<open>Creating and reading accounts\<close>

text \<open>
  C4: for every valid account payload (name, email and address present; the phone number a
  string, null or missing), \<^verbatim>\<open>create_accounts\<close> answers 201 with the serialized account,
  whose identifier and join date the store assigned, and \<^verbatim>\<open>read_account\<close> on that
  identifier then answers 200 with the same record: the name, email, address and phone
  number of the payload, the assigned identifier and join date.
\<close>

theorem create_then_read:
  assumes "wf_store s"
    and "content_type req = Some ''application/json''"
    and "get_json req = Inr (JObj kv)"
    and "map_of kv ''name'' = Some (JStr n)"
    and "map_of kv ''email'' = Some (JStr m)"
    and "map_of kv ''address'' = Some (JStr d)"
    and "optional_field kv ''phone_number'' = Inr p"
  shows "\<exists>s'.
           create_accounts req s =
             (Inr \<lparr>status = 201,
                   body = Json (Account_serialize
                            \<lparr>account_id = Some (next_id s), name = Some n, email = Some m,
                             address = Some d, phone_number = p,
                             date_joined = Some (today s)\<rparr>),
                   headers = [(''Location'', ''/'')]\<rparr>, s')
           \<and> read_account (next_id s) s' =
             (Inr \<lparr>status = 200,
                   body = Json (Account_serialize
                            \<lparr>account_id = Some (next_id s), name = Some n, email = Some m,
                             address = Some d, phone_number = p,
                             date_joined = Some (today s)\<rparr>),
                   headers = []\<rparr>, s')
           \<and> wf_store s'"
proof -
  let ?a = "Account\<lparr>name := Some n, email := Some m, address := Some d, phone_number := p\<rparr>"
  let ?acc = "\<lparr>account_id = Some (next_id s), name = Some n, email = Some m,
               address = Some d, phone_number = p, date_joined = Some (today s)\<rparr>"
  let ?s' = "s\<lparr>table := table s @ [?acc], next_id := Suc (next_id s)\<rparr>"
  have ds: "Account_deserialize Account (JObj kv) = Inr ?a"
    using assms(4-7) by (rule Account_deserialize_fields)
  have cr: "Account_create ?a s = (?acc, ?s')"
    by (simp add: Account_create_def Account_def Let_def)
  have c: "create_accounts req s =
             (Inr \<lparr>status = 201, body = Json (Account_serialize ?acc),
                   headers = [(''Location'', ''/'')]\<rparr>, ?s')"
    by (simp add: create_accounts_def check_content_type_json assms(2,3) ds cr
          make_response_def status_defs)
  from wf_store_fresh [OF assms(1)]
  have "find (\<lambda>a. account_id a = Some (next_id s)) (table s @ [?acc]) = Some ?acc"
    by (intro find_append_fresh) simp_all
  then have f: "Account_find (next_id s) ?s' = Some ?acc"
    by (simp add: Account_find_def)
  have r: "read_account (next_id s) ?s' =
             (Inr \<lparr>status = 200, body = Json (Account_serialize ?acc), headers = []\<rparr>, ?s')"
    by (simp add: read_account_def f make_response_def status_defs)
  from wf_store_create [OF assms(1), of ?a] cr have w: "wf_store ?s'"
    by simp
  from c r w show ?thesis by blast
qed

theorem create_then_read_witness:
  "wf_store sam_store
   \<and> fst (create_accounts (json_request bob_payload) sam_store) =
         Inr \<lparr>status = 201,
              body = Json (JObj [(''id'', JNum 2), (''name'', JStr ''Bob''),
                       (''email'', JStr ''bob@x.com''), (''address'', JStr ''2 Rd''),
                       (''phone_number'', JNull), (''date_joined'', JStr ''2024-01-02'')]),
              headers = [(''Location'', ''/'')]\<rparr>
   \<and> fst (read_account 2 (snd (create_accounts (json_request bob_payload) sam_store))) =
         Inr \<lparr>status = 200,
              body = Json (JObj [(''id'', JNum 2), (''name'', JStr ''Bob''),
                       (''email'', JStr ''bob@x.com''), (''address'', JStr ''2 Rd''),
                       (''phone_number'', JNull), (''date_joined'', JStr ''2024-01-02'')]),
              headers = []\<rparr>"
proof -
  let ?kv = "[(''name'', JStr ''Bob''), (''email'', JStr ''bob@x.com''),
              (''address'', JStr ''2 Rd''), (''phone_number'', JNull)]"
  have w: "wf_store sam_store"
    by (simp add: wf_store_def sam_store_def sam_def)
  have ct: "content_type (json_request bob_payload) = Some ''application/json''"
    by (simp add: json_request_def)
  have gj: "get_json (json_request bob_payload) = Inr (JObj ?kv)"
    by (simp add: json_request_def bob_payload_def)
  have n: "map_of ?kv ''name'' = Some (JStr ''Bob'')" by simp
  have m: "map_of ?kv ''email'' = Some (JStr ''bob@x.com'')" by simp
  have d: "map_of ?kv ''address'' = Some (JStr ''2 Rd'')" by simp
  have p: "optional_field ?kv ''phone_number'' = Inr None"
    by (simp add: optional_field_def)
  have nx: "next_id sam_store = 2" "today sam_store = ''2024-01-02''"
    by (simp_all add: sam_store_def)
  from create_then_read [OF w ct gj n m d p] w show ?thesis
    by (auto simp: nx Account_serialize_def json_of_nat_def json_of_string_def)
qed

text \<open>
  C6: \<^verbatim>\<open>read_account\<close> answers 200 with the serialized account if and only if an
  account with the identifier is present in the store, and aborts with 404 if and only if
  none is; the store is unchanged in both cases.
\<close>

theorem read_account_found_iff:
  "((\<exists>a \<in> set (table s). account_id a = Some i) =
      (\<exists>a. a \<in> set (table s) \<and> account_id a = Some i \<and>
           read_account i s =
             (Inr \<lparr>status = 200, body = Json (Account_serialize a), headers = []\<rparr>, s)))
   \<and> ((\<not> (\<exists>a \<in> set (table s). account_id a = Some i)) =
        (read_account i s = (Inl (HTTPException 404 None), s)))
   \<and> snd (read_account i s) = s"
proof (cases "Account_find i s")
  case None
  then have r: "read_account i s = (Inl (HTTPException 404 None), s)"
    by (simp add: read_account_def abort_def status_defs)
  from None have "\<not> (\<exists>a \<in> set (table s). account_id a = Some i)"
    by (simp add: Account_find_None)
  with r show ?thesis by auto
next
  case (Some b)
  then have r: "read_account i s =
      (Inr \<lparr>status = 200, body = Json (Account_serialize b), headers = []\<rparr>, s)"
    by (simp add: read_account_def make_response_def status_defs)
  from Some have "b \<in> set (table s)" "account_id b = Some i"
    by (auto dest: Account_find_Some)
  with r show ?thesis by auto
qed

theorem read_account_found_iff_witness:
  "(\<exists>a \<in> set (table sam_store). account_id a = Some 1)
   \<and> read_account 1 sam_store =
       (Inr \<lparr>status = 200, body = Json (Account_serialize sam), headers = []\<rparr>, sam_store)
   \<and> \<not> (\<exists>a \<in> set (table sam_store). account_id a = Some 0)
   \<and> read_account 0 sam_store = (Inl (HTTPException 404 None), sam_store)"
  using read_account_found_iff [of sam_store 1] read_account_found_iff [of sam_store 0]
  by (auto simp: sam_store_def sam_def)

text \<open>
  C7: \<^verbatim>\<open>list_accounts\<close> answers 200 with the sequence of the serialized accounts of
  the store, in every store; with no account the sequence is empty; and after N accepted
  POST requests the sequence has N entries more than the store had before them (exactly N
  when it was empty).
\<close>

theorem list_accounts_all:
  "list_accounts s =
     (Inr \<lparr>status = 200, body = Json (JArr (map Account_serialize (table s))), headers = []\<rparr>, s)
   \<and> (table s = [] \<longrightarrow>
        list_accounts s = (Inr \<lparr>status = 200, body = Json (JArr []), headers = []\<rparr>, s))
   \<and> (list_all valid_request reqs \<longrightarrow>
        (\<exists>entries. fst (list_accounts (create_all reqs s)) =
             Inr \<lparr>status = 200, body = Json (JArr entries), headers = []\<rparr>
           \<and> length entries = length (table s) + length reqs))"
  by (simp add: list_accounts_eq length_table_create_all)

theorem list_accounts_all_witness:
  "list_all valid_request [json_request sam_payload, json_request bob_payload]
   \<and> table (empty_store ''2024-01-02'') = []
   \<and> list_accounts (empty_store ''2024-01-02'') =
       (Inr \<lparr>status = 200, body = Json (JArr []), headers = []\<rparr>, empty_store ''2024-01-02'')
   \<and> (\<exists>entries.
         fst (list_accounts (create_all [json_request sam_payload, json_request bob_payload]
                (empty_store ''2024-01-02''))) =
           Inr \<lparr>status = 200, body = Json (JArr entries), headers = []\<rparr>
         \<and> length entries = 2)"
proof -
  have v: "list_all valid_request [json_request sam_payload, json_request bob_payload]"
    by (simp add: valid_request_def json_request_def sam_payload_def bob_payload_def
          Account_deserialize_def required_field_def optional_field_def)
  have e: "table (empty_store ''2024-01-02'') = []"
    by (simp add: empty_store_def)
  from list_accounts_all
         [of "empty_store ''2024-01-02''" "[json_request sam_payload, json_request bob_payload]"]
       v e
  show ?thesis by (simp add: numeral_2_eq_2)
qed

text \<open>
  C9: whenever \<^verbatim>\<open>create_accounts\<close> fails, the store after the request is the store
  before it; the failure is the 415 of the content-type check, or an exception of
  \<^verbatim>\<open>request.get_json()\<close>, or the validation error, which is answered with 400.
\<close>

theorem create_failure_keeps_store:
  assumes "create_accounts req s = (Inl e, s')"
  shows "s' = s \<and> \<not> valid_request req
         \<and> (content_type req \<noteq> Some ''application/json'' \<longrightarrow> status_code_of e = 415)
         \<and> (content_type req = Some ''application/json'' \<longrightarrow>
              get_json req = Inl e \<or> (e = DataValidationError \<and> status_code_of e = 400))"
proof -
  have nv: "\<not> valid_request req"
  proof
    assume "valid_request req"
    from create_accounts_valid [OF this, of s] assms show False by auto
  qed
  from create_accounts_invalid [OF nv, of s] assms have s: "s' = s" by auto
  have c1: "content_type req \<noteq> Some ''application/json'' \<longrightarrow> status_code_of e = 415"
    using assms by (auto simp: create_accounts_def check_content_type_json)
  have c2: "content_type req = Some ''application/json'' \<longrightarrow>
              get_json req = Inl e \<or> (e = DataValidationError \<and> status_code_of e = 400)"
    using assms
    by (auto simp: create_accounts_def check_content_type_json status_defs
             split: sum.splits prod.splits dest: Account_deserialize_Inl)
  from nv s c1 c2 show ?thesis by simp
qed

theorem create_failure_keeps_store_witness:
  "create_accounts (json_request short_payload) sam_store = (Inl DataValidationError, sam_store)
   \<and> status_code_of DataValidationError = 400
   \<and> \<not> valid_request (json_request short_payload)
   \<and> create_accounts \<lparr>content_type = Some ''test/html'', get_json = Inr sam_payload\<rparr>
         sam_store =
       (Inl (HTTPException 415 (Some ''Content-Type must be application/json'')), sam_store)
   \<and> status_code_of (HTTPException 415 (Some ''Content-Type must be application/json'')) = 415"
proof -
  have h: "create_accounts (json_request short_payload) sam_store =
             (Inl DataValidationError, sam_store)"
    by (simp add: create_accounts_def check_content_type_json json_request_def
          short_payload_def Account_deserialize_def required_field_def)
  have k: "create_accounts \<lparr>content_type = Some ''test/html'', get_json = Inr sam_payload\<rparr>
             sam_store =
           (Inl (HTTPException 415 (Some ''Content-Type must be application/json'')), sam_store)"
    by (simp add: create_accounts_def check_content_type_json)
  from create_failure_keeps_store [OF h] create_failure_keeps_store [OF k] h k show ?thesis
    by (simp add: status_defs)
qed

subsection \<open>The content-type check\<close>

text \<open>
  C5: only \<^verbatim>\<open>create_accounts\<close> checks the content type, and it does so before the body
  is parsed: with a Content-Type other than "application/json" it aborts with 415 whatever
  \<^verbatim>\<open>request.get_json()\<close> would return or raise, and leaves the store as it was; the
  outcome of \<^verbatim>\<open>update_account\<close> does not depend on the Content-Type header.
\<close>

theorem content_type_check_only_on_create:
  "(content_type req \<noteq> Some ''application/json'' \<longrightarrow>
      create_accounts (req\<lparr>get_json := j\<rparr>) s =
        (Inl (HTTPException 415 (Some ''Content-Type must be application/json'')), s))
   \<and> update_account (req\<lparr>content_type := ct\<rparr>) i s = update_account req i s"
  by (simp add: create_accounts_def check_content_type_json update_account_def
        split: option.splits)

theorem content_type_check_only_on_create_witness:
  "Some ''test/html'' \<noteq> Some ''application/json''
   \<and> create_accounts \<lparr>content_type = Some ''test/html'', get_json = Inr sam_payload\<rparr> sam_store =
       (Inl (HTTPException 415 (Some ''Content-Type must be application/json'')), sam_store)
   \<and> create_accounts \<lparr>content_type = Some ''test/html'',
         get_json = Inl (HTTPException 400 None)\<rparr> sam_store =
       (Inl (HTTPException 415 (Some ''Content-Type must be application/json'')), sam_store)
   \<and> update_account \<lparr>content_type = Some ''test/html'', get_json = Inr sam_payload\<rparr> 1 sam_store =
       update_account \<lparr>content_type = Some ''application/json'', get_json = Inr sam_payload\<rparr>
         1 sam_store"
  using content_type_check_only_on_create
          [of "\<lparr>content_type = Some ''test/html'', get_json = Inr sam_payload\<rparr>"
              "Inr sam_payload" sam_store "Some ''application/json''" 1]
        content_type_check_only_on_create
          [of "\<lparr>content_type = Some ''test/html'', get_json = Inr sam_payload\<rparr>"
              "Inl (HTTPException 400 None)" sam_store "Some ''application/json''" 1]
  by simp

text \<open>
  C10: the content-type check accepts a request if and only if the Content-Type header is
  present and is exactly the string "application/json"; with any other header value, and
  with a missing header, \<^verbatim>\<open>create_accounts\<close> fails with 415 (and leaves the store as
  it was).
\<close>

theorem check_content_type_exact:
  "(check_content_type req ''application/json'' = Inr ()) =
     (content_type req = Some ''application/json'')
   \<and> (content_type req \<noteq> Some ''application/json'' \<longrightarrow>
        create_accounts req s =
          (Inl (HTTPException 415 (Some ''Content-Type must be application/json'')), s))"
  by (simp add: check_content_type_json create_accounts_def)

theorem check_content_type_exact_witness:
  "Some ''application/json; charset=utf-8'' \<noteq> Some ''application/json''
   \<and> check_content_type \<lparr>content_type = Some ''application/json; charset=utf-8'',
         get_json = Inr sam_payload\<rparr> ''application/json'' \<noteq> Inr ()
   \<and> create_accounts \<lparr>content_type = Some ''application/json; charset=utf-8'',
         get_json = Inr sam_payload\<rparr> sam_store =
        (Inl (HTTPException 415 (Some ''Content-Type must be application/json'')), sam_store)
   \<and> create_accounts \<lparr>content_type = None, get_json = Inr sam_payload\<rparr> sam_store =
        (Inl (HTTPException 415 (Some ''Content-Type must be application/json'')), sam_store)"
  using check_content_type_exact
          [of "\<lparr>content_type = Some ''application/json; charset=utf-8'',
                get_json = Inr sam_payload\<rparr>" sam_store]
        check_content_type_exact
          [of "\<lparr>content_type = None, get_json = Inr sam_payload\<rparr>" sam_store]
  by simp

end
